theory Spec2Isabelle
  imports Main
begin

section \<open>Python values\<close>

text \<open>
  A Python \<open>str\<close> is a sequence of Unicode code points, and slicing and \<open>len\<close> count
  code points. It is modelled as a list of code points, not as a list of bytes. A string
  literal of the program is ASCII and is embedded with \<open>lit\<close>.
\<close>

type_synonym code_point = nat
type_synonym str = "code_point list"

definition lit :: "string \<Rightarrow> str" where
  "lit s = map of_char s"

text \<open>The values that \<open>jsonify\<close> serialises; a dict keeps its keys in insertion order.\<close>

datatype json =
    JNull
  | JBool bool
  | JInt int
  | JStr str
  | JList "json list"
  | JDict "(str \<times> json) list"

text \<open>
  An exception is an instance of \<open>requests.RequestException\<close> (of the class or of a
  subclass), with the text that \<open>str(e)\<close> returns, or an exception of any other class,
  with the name of its class.
\<close>

datatype py_exception =
    RequestException str
  | OtherException str

section \<open>Responses\<close>

text \<open>
  The body of a response: a JSON value, an HTML page, or the page of a redirect with the
  path it points to.
\<close>

datatype body = Json json | Html str | Redirect str

record response =
  status :: int
  body :: body

text \<open>
  What a view or the routing produces: a response, or an exception that nothing in the
  program catches.
\<close>

type_synonym outcome = "py_exception + response"

text \<open>\<open>jsonify(d)\<close> is a response with status 200; \<open>return r, code\<close> sets the status.\<close>

definition jsonify :: "json \<Rightarrow> response" where
  "jsonify d = \<lparr>status = 200, body = Json d\<rparr>"

definition with_status :: "response \<Rightarrow> int \<Rightarrow> response" where
  "with_status r code = r\<lparr>status := code\<rparr>"

section \<open>Site configuration\<close>

text \<open>
  Every entry of \<open>SITES\<close> is a dict literal with the same five keys, so an entry is a
  record of five fields (the key \<open>'id'\<close> is the field \<open>id_field\<close>). Such a dict is never
  empty, hence always truthy.
\<close>

record site =
  id_field :: int
  url :: str
  title :: str
  description :: str
  category :: str

definition site_json :: "site \<Rightarrow> json" where
  "site_json s = JDict
     [(lit ''id'', JInt (id_field s)),
      (lit ''url'', JStr (url s)),
      (lit ''title'', JStr (title s)),
      (lit ''description'', JStr (description s)),
      (lit ''category'', JStr (category s))]"

text \<open>
  The state of the server process: the module-level list \<open>SITES\<close>, and the outbound GET
  requests issued so far (target URL and timeout in seconds), oldest first.
\<close>

record server =
  SITES :: "site list"
  sent :: "(str \<times> nat) list"

text \<open>The state once the module is loaded.\<close>

definition module_load :: server where
  "module_load = \<lparr>SITES =
     [\<lparr>id_field = 1,
       url = lit ''http://76.102.42.17:5100/'',
       title = lit ''Main Site (Port 5100)'',
       description = lit ''Primary portfolio website'',
       category = lit ''main''\<rparr>,
      \<lparr>id_field = 2,
       url = lit ''http://76.102.42.17:5000/video'',
       title = lit ''Video Demo'',
       description = lit ''Video demonstration and media showcase'',
       category = lit ''projects''\<rparr>,
      \<lparr>id_field = 3,
       url = lit ''https://instructions.online/?id=4610-25-0922-0650-rq200-servoarms_small-now'',
       title = lit ''Instructions Online'',
       description = lit ''RQ200 Servo Arms instructions and guide'',
       category = lit ''docs''\<rparr>,
      \<lparr>id_field = 4,
       url = lit ''http://quest.tny.cc/r200-ServoArmSm_Left-Test'',
       title = lit ''Quest Test - Servo Arm Left'',
       description = lit ''R200 ServoArm Left interactive test'',
       category = lit ''projects''\<rparr>],
     sent = []\<rparr>"

section \<open>The world outside the process\<close>

text \<open>
  The response object of \<open>requests\<close>, by the three attributes the program reads:
  \<open>status_code\<close>, \<open>text\<close> (the body decoded to a \<open>str\<close>) and \<open>headers\<close>.
\<close>

record upstream =
  status_code :: int
  text_decoded :: str
  headers :: "(str \<times> str) list"

text \<open>
  What the outside world answers during one request:
  \<^item> \<open>now_isoformat\<close>: the value of \<open>datetime.now().isoformat()\<close>;
  \<^item> \<open>requests_get\<close>: the result of \<open>requests.get(url, timeout=t)\<close> for every URL and
    timeout;
  \<^item> \<open>render_template\<close>: the result of \<open>render_template(name)\<close>;
  \<^item> \<open>unicode_decimal\<close>: the decimal digit value that the Unicode database of the
    interpreter gives a character, if it has one (the characters that the pattern of a digit matches and
    \<open>int\<close> converts);
  \<^item> \<open>int_max_str_digits\<close>: the longest digit string that \<open>int\<close> converts, 0 for no
    limit (\<open>sys.get_int_max_str_digits()\<close>, 4300 unless configured);
  \<^item> \<open>static_route\<close>: the answer of the route \<open>/static/<path:filename>\<close>, which Flask adds
    to every application, for a path under \<open>/static\<close>.
\<close>

record env =
  now_isoformat :: str
  requests_get :: "str \<Rightarrow> nat \<Rightarrow> py_exception + upstream"
  render_template :: "str \<Rightarrow> py_exception + str"
  unicode_decimal :: "code_point \<Rightarrow> nat option"
  int_max_str_digits :: nat
  static_route :: "str \<Rightarrow> outcome"

section \<open>Route handlers\<close>

text \<open>
  Every view runs in an environment and a server state and returns its outcome with the
  state it leaves.
\<close>

definition home :: "env \<Rightarrow> server \<Rightarrow> outcome \<times> server" where
  "home e s =
     (case render_template e (lit ''index.html'') of
        Inl x \<Rightarrow> (Inl x, s)
      | Inr page \<Rightarrow> (Inr \<lparr>status = 200, body = Html page\<rparr>, s))"

definition get_sites :: "env \<Rightarrow> server \<Rightarrow> outcome \<times> server" where
  "get_sites e s =
     (Inr (jsonify (JDict
        [(lit ''success'', JBool True),
         (lit ''data'', JList (map site_json (SITES s))),
         (lit ''timestamp'', JStr (now_isoformat e))])), s)"

text \<open>
  \<open>next((s for s in SITES if s['id'] == site_id), None)\<close> is the first entry with the id,
  or \<open>None\<close>.
\<close>

definition get_site :: "env \<Rightarrow> server \<Rightarrow> int \<Rightarrow> outcome \<times> server" where
  "get_site e s site_id =
     (case find (\<lambda>x. id_field x = site_id) (SITES s) of
        Some x \<Rightarrow>
          (Inr (jsonify (JDict
             [(lit ''success'', JBool True),
              (lit ''data'', site_json x)])), s)
      | None \<Rightarrow>
          (Inr (with_status (jsonify (JDict
             [(lit ''success'', JBool False),
              (lit ''error'', JStr (lit ''Site not found''))])) 404), s))"

text \<open>
  \<open>request.args\<close> is the list of the query parameters in the order of the query string;
  \<open>request.args.get(k)\<close> is the first value of \<open>k\<close>, or \<open>None\<close>. \<open>not target_url\<close> holds
  for \<open>None\<close> and for the empty string.
\<close>

definition proxy_request :: "env \<Rightarrow> server \<Rightarrow> (str \<times> str) list \<Rightarrow> outcome \<times> server" where
  "proxy_request e s args =
     (case map_of args (lit ''url'') of
        None \<Rightarrow>
          (Inr (with_status (jsonify (JDict
             [(lit ''success'', JBool False),
              (lit ''error'', JStr (lit ''URL parameter is required''))])) 400), s)
      | Some target_url \<Rightarrow>
          if target_url = [] then
            (Inr (with_status (jsonify (JDict
               [(lit ''success'', JBool False),
                (lit ''error'', JStr (lit ''URL parameter is required''))])) 400), s)
          else
            (case requests_get e target_url 10 of
               Inr r \<Rightarrow>
                 (Inr (jsonify (JDict
                    [(lit ''success'', JBool True),
                     (lit ''status_code'', JInt (status_code r)),
                     (lit ''content'', JStr (take 1000 (text_decoded r))),
                     (lit ''headers'', JDict (map (\<lambda>(k, v). (k, JStr v)) (headers r)))])),
                  s\<lparr>sent := sent s @ [(target_url, 10)]\<rparr>)
             | Inl (RequestException d) \<Rightarrow>
                 (Inr (with_status (jsonify (JDict
                    [(lit ''success'', JBool False),
                     (lit ''error'', JStr d)])) 500),
                  s\<lparr>sent := sent s @ [(target_url, 10)]\<rparr>)
             | Inl (OtherException d) \<Rightarrow>
                 (Inl (OtherException d), s\<lparr>sent := sent s @ [(target_url, 10)]\<rparr>)))"

definition health_check :: "env \<Rightarrow> server \<Rightarrow> outcome \<times> server" where
  "health_check e s =
     (Inr (jsonify (JDict
        [(lit ''status'', JStr (lit ''healthy'')),
         (lit ''timestamp'', JStr (now_isoformat e)),
         (lit ''service'', JStr (lit ''Portfolio Dashboard API''))])), s)"

section \<open>Error handlers\<close>

text \<open>
  The handler of 404 answers a path that no rule matches. The handler of 500 answers an
  exception that nothing catches, unless the server runs in debug mode, where the
  exception goes on to the debugger; routing below keeps such an exception as its outcome.
\<close>

definition not_found :: response where
  "not_found = with_status (jsonify (JDict
     [(lit ''success'', JBool False),
      (lit ''error'', JStr (lit ''Endpoint not found''))])) 404"

definition internal_error :: response where
  "internal_error = with_status (jsonify (JDict
     [(lit ''success'', JBool False),
      (lit ''error'', JStr (lit ''Internal server error''))])) 500"

section \<open>Routing\<close>

text \<open>
  A GET request, by its path (\<open>PATH_INFO\<close> decoded to a \<open>str\<close>, beginning with a slash) and
  its query parameters. The slash is the code point 47.
\<close>

record request =
  path :: str
  args :: "(str \<times> str) list"

text \<open>\<open>s.split(c)\<close> for a separator of one character.\<close>

fun split_on :: "'a \<Rightarrow> 'a list \<Rightarrow> 'a list list" where
  "split_on c [] = [[]]"
| "split_on c (x # xs) =
     (if x = c then [] # split_on c xs
      else (case split_on c xs of
              [] \<Rightarrow> [[x]]
            | h # t \<Rightarrow> (x # h) # t))"

text \<open>The router matches the path with its leading slashes reduced to one.\<close>

definition path_part :: "request \<Rightarrow> str" where
  "path_part rq = 47 # dropWhile (\<lambda>c. c = 47) (path rq)"

text \<open>The segments of a path that begins with a slash: \<open>/a/b\<close> has the segments \<open>a\<close>, \<open>b\<close>.\<close>

definition segments :: "str \<Rightarrow> str list" where
  "segments p = split_on 47 (drop 1 p)"

text \<open>
  \<open>re.sub("/{2,}?", "/", path)\<close>: from the left, every two slashes in a row become one (so
  three in a row become two).
\<close>

fun merge_slashes :: "str \<Rightarrow> str" where
  "merge_slashes (a # b # rest) =
     (if a = 47 \<and> b = 47 then 47 # merge_slashes rest else a # merge_slashes (b # rest))"
| "merge_slashes p = p"

text \<open>
  The converter \<open>int\<close> of the rule \<open>/api/sites/<int:site_id>\<close> has the pattern of one or more digits, which
  the whole segment must match: one or more decimal digits of any script, no sign.
  \<open>to_python\<close> is \<open>int(segment)\<close>: a \<open>ValueError\<close> when the segment is longer than the
  limit, else the value of the digits.
\<close>

definition int_converter :: "env \<Rightarrow> str \<Rightarrow> bool" where
  "int_converter e seg = (seg \<noteq> [] \<and> list_all (\<lambda>c. unicode_decimal e c \<noteq> None) seg)"

definition digit :: "env \<Rightarrow> code_point \<Rightarrow> nat" where
  "digit e c = (case unicode_decimal e c of None \<Rightarrow> 0 | Some d \<Rightarrow> d)"

definition to_python :: "env \<Rightarrow> str \<Rightarrow> py_exception + int" where
  "to_python e seg =
     (if int_max_str_digits e \<noteq> 0 \<and> int_max_str_digits e < length seg
      then Inl (OtherException (lit ''ValueError''))
      else Inr (int (foldl (\<lambda>n c. 10 * n + digit e c) 0 seg)))"

text \<open>
  The rules of the five views, in the order of the program; a rule matches a path by its
  segments, and the rule of \<open>get_site\<close> keeps the segment that its converter accepted.
\<close>

datatype endpoint =
    Home
  | Get_sites
  | Get_site str
  | Proxy_request
  | Health_check

definition url_match :: "env \<Rightarrow> str \<Rightarrow> endpoint option" where
  "url_match e p =
     (case segments p of
        [a] \<Rightarrow> if a = [] then Some Home else None
      | [a, b] \<Rightarrow>
          if a = lit ''api'' \<and> b = lit ''sites'' then Some Get_sites
          else if a = lit ''api'' \<and> b = lit ''proxy'' then Some Proxy_request
          else if a = lit ''api'' \<and> b = lit ''health'' then Some Health_check
          else None
      | [a, b, c] \<Rightarrow>
          if a = lit ''api'' \<and> b = lit ''sites'' \<and> int_converter e c then Some (Get_site c)
          else None
      | _ \<Rightarrow> None)"

text \<open>Calling the view of a matched rule; the converter runs before the view.\<close>

definition call_view :: "env \<Rightarrow> server \<Rightarrow> request \<Rightarrow> endpoint \<Rightarrow> outcome \<times> server" where
  "call_view e s rq ep =
     (case ep of
        Home \<Rightarrow> home e s
      | Get_sites \<Rightarrow> get_sites e s
      | Get_site seg \<Rightarrow>
          (case to_python e seg of
             Inl x \<Rightarrow> (Inl x, s)
           | Inr site_id \<Rightarrow> get_site e s site_id)
      | Proxy_request \<Rightarrow> proxy_request e s (args rq)
      | Health_check \<Rightarrow> health_check e s)"

text \<open>
  A path whose first segment is \<open>static\<close> belongs to the static route, which the
  environment answers.
\<close>

definition under_static :: "str \<Rightarrow> bool" where
  "under_static p = (take 1 (segments p) = [lit ''static''])"

definition redirect :: "str \<Rightarrow> response" where
  "redirect p = \<lparr>status = 308, body = Redirect p\<rparr>"

text \<open>
  Routing: the view of the rule that matches the path; when no rule matches the path but
  one matches the path with its slashes merged, a redirect (308) to the merged path;
  otherwise the handler of 404.
\<close>

definition dispatch :: "env \<Rightarrow> server \<Rightarrow> request \<Rightarrow> outcome \<times> server" where
  "dispatch e s rq =
     (if under_static (path_part rq) then (static_route e (path_part rq), s)
      else
        (case url_match e (path_part rq) of
           Some ep \<Rightarrow> call_view e s rq ep
         | None \<Rightarrow>
             if url_match e (merge_slashes (path_part rq)) \<noteq> None
             then (Inr (redirect (merge_slashes (path_part rq))), s)
             else (Inr not_found, s)))"

text \<open>The state after a sequence of requests, each served in its own environment.\<close>

fun run :: "server \<Rightarrow> (env \<times> request) list \<Rightarrow> server" where
  "run s [] = s"
| "run s ((e, rq) # rest) = run (snd (dispatch e s rq)) rest"

section \<open>Reading a reply\<close>

text \<open>The status of the response, and the value under a key of its JSON object.\<close>

definition reply_status :: "outcome \<Rightarrow> int option" where
  "reply_status out = (case out of Inl _ \<Rightarrow> None | Inr r \<Rightarrow> Some (status r))"

definition reply_keys :: "outcome \<Rightarrow> str list option" where
  "reply_keys out =
     (case out of
        Inl _ \<Rightarrow> None
      | Inr r \<Rightarrow> (case body r of Json (JDict kvs) \<Rightarrow> Some (map fst kvs) | _ \<Rightarrow> None))"

definition reply_field :: "outcome \<Rightarrow> str \<Rightarrow> json option" where
  "reply_field out k =
     (case out of
        Inl _ \<Rightarrow> None
      | Inr r \<Rightarrow> (case body r of Json (JDict kvs) \<Rightarrow> map_of kvs k | _ \<Rightarrow> None))"

section \<open>Example inputs\<close>

text \<open>
  The decimal digits of Unicode 14.0: every run of ten digits, by the code point of its
  zero; the digit value of a character is its distance from the zero of its run.
\<close>

definition decimal_zeros :: "code_point list" where
  "decimal_zeros =
     [48, 1632, 1776, 1984, 2406, 2534, 2662, 2790, 2918, 3046, 3174, 3302, 3430, 3558,
      3664, 3792, 3872, 4160, 4240, 6112, 6160, 6470, 6608, 6784, 6800, 6992, 7088, 7232,
      7248, 42528, 43216, 43264, 43472, 43504, 43600, 44016, 65296, 66720, 68912, 69734,
      69872, 69942, 70096, 70384, 70736, 70864, 71248, 71360, 71472, 71904, 72016, 72784,
      73040, 73120, 92768, 92864, 93008, 120782, 120792, 120802, 120812, 120822, 123200,
      123632, 125264, 130032]"

definition decimal_value :: "code_point \<Rightarrow> nat option" where
  "decimal_value c =
     (case find (\<lambda>z. z \<le> c \<and> c < z + 10) decimal_zeros of
        None \<Rightarrow> None
      | Some z \<Rightarrow> Some (c - z))"

text \<open>
  An environment for the examples. Three URLs answer: with a body of 1001 characters
  that are not ASCII (code point 233), with status 404 and with status 503. For the URL
  \<open>http://a..b/\<close>, whose host has an empty label, \<open>requests.get\<close> raises
  \<open>LocationParseError\<close> of \<open>urllib3\<close>, which is not a \<open>RequestException\<close>. Every other URL
  is unreachable. No static file exists.
\<close>

definition example_env :: env where
  "example_env =
     \<lparr>now_isoformat = lit ''2025-12-23T22:20:00.000000'',
      requests_get = (\<lambda>u t.
        if u = lit ''http://example.com/long'' then
          Inr \<lparr>status_code = 200, text_decoded = replicate 1001 233, headers = []\<rparr>
        else if u = lit ''http://example.com/missing'' then
          Inr \<lparr>status_code = 404, text_decoded = lit ''gone'',
               headers = [(lit ''Content-Type'', lit ''text/plain'')]\<rparr>
        else if u = lit ''http://example.com/broken'' then
          Inr \<lparr>status_code = 503, text_decoded = [], headers = []\<rparr>
        else if u = lit ''http://a..b/'' then
          Inl (OtherException (lit ''LocationParseError''))
        else Inl (RequestException (lit ''Connection refused''))),
      render_template = (\<lambda>name. Inr (lit ''<html></html>'')),
      unicode_decimal = decimal_value,
      int_max_str_digits = 4300,
      static_route = (\<lambda>p. Inr not_found)\<rparr>"

section \<open>The words of the specification\<close>

text \<open>
  A decimal integer in the digits \<open>0\<close> to \<open>9\<close> (code points 48 to 57): one or more
  digits, with or without a sign before them (\<open>+\<close> is 43, \<open>-\<close> is 45).
\<close>

definition ascii_digits :: "str \<Rightarrow> bool" where
  "ascii_digits ds = (ds \<noteq> [] \<and> list_all (\<lambda>d. 48 \<le> d \<and> d \<le> 57) ds)"

definition decimal_integer :: "str \<Rightarrow> bool" where
  "decimal_integer seg =
     (ascii_digits seg \<or>
      (case seg of
         [] \<Rightarrow> False
       | c # ds \<Rightarrow> (c = 45 \<or> c = 43) \<and> ascii_digits ds))"

text \<open>
  A decimal integer in the decimal digits of any script: one or more characters that have
  a decimal digit value, with or without a sign before them.
\<close>

definition unicode_digits :: "env \<Rightarrow> str \<Rightarrow> bool" where
  "unicode_digits e ds = (ds \<noteq> [] \<and> list_all (\<lambda>d. unicode_decimal e d \<noteq> None) ds)"

definition unicode_decimal_integer :: "env \<Rightarrow> str \<Rightarrow> bool" where
  "unicode_decimal_integer e seg =
     (unicode_digits e seg \<or>
      (case seg of
         [] \<Rightarrow> False
       | c # ds \<Rightarrow> (c = 45 \<or> c = 43) \<and> unicode_digits e ds))"

section \<open>Basic facts\<close>

text \<open>Literals are equal exactly when their texts are.\<close>

lemma lit_inject [simp]: "lit a = lit b \<longleftrightarrow> a = b"
  unfolding lit_def by (simp add: inj_map_eq_map [OF inj_of_char])

lemma lit_not_Nil [simp]: "lit a = [] \<longleftrightarrow> a = []"
  by (simp add: lit_def)

text \<open>Searching a list whose keys are distinct finds the entry that has the key.\<close>

lemma find_distinct_key:
  "distinct (map f xs) \<Longrightarrow> x \<in> set xs \<Longrightarrow> find (\<lambda>y. f y = f x) xs = Some x"
proof (induction xs)
  case Nil
  then show ?case by simp
next
  case (Cons y ys)
  show ?case
  proof (cases "y = x")
    case True
    then show ?thesis by simp
  next
    case False
    with Cons.prems have mem: "x \<in> set ys" by simp
    from Cons.prems have "f y \<notin> f ` set ys" by simp
    with mem have "f y \<noteq> f x" by blast
    moreover from Cons.prems have "distinct (map f ys)" by simp
    ultimately show ?thesis using Cons.IH mem by simp
  qed
qed

lemma find_absent_key:
  "i \<notin> f ` set xs \<Longrightarrow> find (\<lambda>y. f y = i) xs = None"
  by (induction xs) auto

text \<open>The three ways through \<open>proxy_request\<close> that end in a response.\<close>

lemma proxy_request_rejected:
  assumes "map_of a (lit ''url'') = None \<or> map_of a (lit ''url'') = Some []"
  shows "proxy_request e s a =
     (Inr \<lparr>status = 400, body = Json (JDict
        [(lit ''success'', JBool False),
         (lit ''error'', JStr (lit ''URL parameter is required''))])\<rparr>, s)"
  using assms by (auto simp: proxy_request_def jsonify_def with_status_def)

lemma proxy_request_fetched:
  assumes "map_of a (lit ''url'') = Some u" and "u \<noteq> []" and "requests_get e u 10 = Inr r"
  shows "proxy_request e s a =
     (Inr \<lparr>status = 200, body = Json (JDict
        [(lit ''success'', JBool True),
         (lit ''status_code'', JInt (status_code r)),
         (lit ''content'', JStr (take 1000 (text_decoded r))),
         (lit ''headers'', JDict (map (\<lambda>(k, v). (k, JStr v)) (headers r)))])\<rparr>,
      s\<lparr>sent := sent s @ [(u, 10)]\<rparr>)"
  using assms by (simp add: proxy_request_def jsonify_def)


text \<open>No view and no route writes \<open>SITES\<close>.\<close>

lemma home_SITES: "SITES (snd (home e s)) = SITES s"
  by (simp add: home_def split: sum.splits)

lemma get_sites_SITES: "SITES (snd (get_sites e s)) = SITES s"
  by (simp add: get_sites_def)

lemma get_site_SITES: "SITES (snd (get_site e s i)) = SITES s"
  by (simp add: get_site_def split: option.splits)

lemma proxy_request_SITES: "SITES (snd (proxy_request e s a)) = SITES s"
  by (simp add: proxy_request_def split: option.splits sum.splits py_exception.splits)

lemma health_check_SITES: "SITES (snd (health_check e s)) = SITES s"
  by (simp add: health_check_def)

lemma call_view_SITES: "SITES (snd (call_view e s rq ep)) = SITES s"
  by (simp add: call_view_def home_SITES get_sites_SITES get_site_SITES proxy_request_SITES
      health_check_SITES split: endpoint.splits sum.splits)

lemma dispatch_SITES: "SITES (snd (dispatch e s rq)) = SITES s"
  by (simp add: dispatch_def call_view_SITES split: option.splits)

lemma run_SITES: "SITES (run s evs) = SITES s"
proof (induction evs arbitrary: s)
  case Nil
  show ?case by simp
next
  case (Cons ev evs)
  obtain e rq where ev: "ev = (e, rq)" by (cases ev)
  have "SITES (run s (ev # evs)) = SITES (snd (dispatch e s rq))"
    unfolding ev by (simp add: Cons.IH)
  then show ?case by (simp add: dispatch_SITES)
qed

lemma ids_module_load: "map id_field (SITES module_load) = [1, 2, 3, 4]"
  by (simp add: module_load_def)

text \<open>
  Splitting and merging a path that has no slash to split at or to merge; the literals of
  the rules by their code points.
\<close>

lemma split_on_no_separator: "c \<notin> set xs \<Longrightarrow> split_on c xs = [xs]"
  by (induction xs) auto

lemma merge_slashes_no_slash: "47 \<notin> set p \<Longrightarrow> merge_slashes p = p"
  by (induction p rule: merge_slashes.induct) auto

lemma merge_slashes_one_slash: "47 \<notin> set p \<Longrightarrow> merge_slashes (47 # p) = 47 # p"
  by (cases p) (auto simp: merge_slashes_no_slash)

lemma lit_api_sites: "lit ''/api/sites/'' = [47, 97, 112, 105, 47, 115, 105, 116, 101, 115, 47]"
  by (simp add: lit_def)

lemma lit_api: "lit ''api'' = [97, 112, 105]"
  by (simp add: lit_def)

lemma lit_sites: "lit ''sites'' = [115, 105, 116, 101, 115]"
  by (simp add: lit_def)

lemma lit_static: "lit ''static'' = [115, 116, 97, 116, 105, 99]"
  by (simp add: lit_def)

text \<open>
  Routing a path \<open>/api/sites/seg\<close>, where \<open>seg\<close> has no slash: the lookup when the converter
  accepts the segment, the handler of 404 when it does not.
\<close>

lemma site_path_part:
  "path_part \<lparr>path = lit ''/api/sites/'' @ seg, args = a\<rparr> = lit ''/api/sites/'' @ seg"
  by (simp add: path_part_def lit_api_sites)

lemma site_path_segments:
  "47 \<notin> set seg \<Longrightarrow> segments (lit ''/api/sites/'' @ seg) = [lit ''api'', lit ''sites'', seg]"
  by (simp add: segments_def lit_api_sites lit_api lit_sites split_on_no_separator)

lemma site_path_merge:
  "47 \<notin> set seg \<Longrightarrow> merge_slashes (lit ''/api/sites/'' @ seg) = lit ''/api/sites/'' @ seg"
  by (simp add: lit_api_sites merge_slashes_one_slash)

lemma site_path_match:
  "47 \<notin> set seg \<Longrightarrow>
   url_match e (lit ''/api/sites/'' @ seg) = (if int_converter e seg then Some (Get_site seg) else None)"
  by (simp add: url_match_def site_path_segments)

lemma site_path_not_static:
  "47 \<notin> set seg \<Longrightarrow> \<not> under_static (lit ''/api/sites/'' @ seg)"
  by (simp add: under_static_def site_path_segments)

lemma dispatch_site_path:
  "47 \<notin> set seg \<Longrightarrow>
   dispatch e s \<lparr>path = lit ''/api/sites/'' @ seg, args = a\<rparr> =
     (if int_converter e seg then call_view e s \<lparr>path = lit ''/api/sites/'' @ seg, args = a\<rparr> (Get_site seg)
      else (Inr not_found, s))"
  by (simp add: dispatch_def site_path_part site_path_not_static site_path_match site_path_merge)

text \<open>Digit values in the example environment.\<close>

lemma decimal_value_ascii_2: "decimal_value 50 = Some 2"
  by (simp add: decimal_value_def decimal_zeros_def)

lemma decimal_value_arabic_3: "decimal_value 1635 = Some 3"
  by (simp add: decimal_value_def decimal_zeros_def)

lemma decimal_value_arabic_9: "decimal_value 1641 = Some 9"
  by (simp add: decimal_value_def decimal_zeros_def)

lemma decimal_value_letters: "decimal_value 97 = None \<and> decimal_value 98 = None \<and> decimal_value 99 = None
   \<and> decimal_value 46 = None \<and> decimal_value 45 = None"
  by (simp add: decimal_value_def decimal_zeros_def)

text \<open>
  Routing in the example environment: \<open>/api/sites/2\<close> reaches the lookup with the id 2; the
  Arabic-Indic digit three (code point 1635) reaches it with the id 3, and three
  Arabic-Indic nines (code point 1641) with the id 999; a doubled slash is answered
  with a redirect to the merged path; 4301 digits make \<open>int\<close> raise \<open>ValueError\<close>; a path
  under \<open>/static\<close> goes to the static route; a trailing slash after \<open>/api/sites\<close> matches
  no rule.
\<close>

lemma dispatch_integer_id:
  "dispatch example_env s \<lparr>path = lit ''/api/sites/'' @ [50], args = a\<rparr> = get_site example_env s 2"
proof -
  have "dispatch example_env s \<lparr>path = lit ''/api/sites/'' @ [50], args = a\<rparr> =
      (if int_converter example_env [50]
       then call_view example_env s \<lparr>path = lit ''/api/sites/'' @ [50], args = a\<rparr> (Get_site [50])
       else (Inr not_found, s))"
    by (rule dispatch_site_path) simp
  then show ?thesis
    by (simp add: int_converter_def call_view_def to_python_def digit_def example_env_def
        decimal_value_ascii_2)
qed

lemma dispatch_arabic_3:
  "dispatch example_env s \<lparr>path = lit ''/api/sites/'' @ [1635], args = a\<rparr> = get_site example_env s 3"
proof -
  have "dispatch example_env s \<lparr>path = lit ''/api/sites/'' @ [1635], args = a\<rparr> =
      (if int_converter example_env [1635]
       then call_view example_env s \<lparr>path = lit ''/api/sites/'' @ [1635], args = a\<rparr> (Get_site [1635])
       else (Inr not_found, s))"
    by (rule dispatch_site_path) simp
  then show ?thesis
    by (simp add: int_converter_def call_view_def to_python_def digit_def example_env_def
        decimal_value_arabic_3)
qed

lemma dispatch_arabic_999:
  "dispatch example_env s \<lparr>path = lit ''/api/sites/'' @ [1641, 1641, 1641], args = a\<rparr>
     = get_site example_env s 999"
proof -
  have "dispatch example_env s \<lparr>path = lit ''/api/sites/'' @ [1641, 1641, 1641], args = a\<rparr> =
      (if int_converter example_env [1641, 1641, 1641]
       then call_view example_env s \<lparr>path = lit ''/api/sites/'' @ [1641, 1641, 1641], args = a\<rparr>
          (Get_site [1641, 1641, 1641])
       else (Inr not_found, s))"
    by (rule dispatch_site_path) simp
  then show ?thesis
    by (simp add: int_converter_def call_view_def to_python_def digit_def example_env_def
        decimal_value_arabic_9)
qed

lemma dispatch_doubled_slash:
  "dispatch example_env s \<lparr>path = lit ''/api//sites'', args = a\<rparr>
     = (Inr (redirect (lit ''/api/sites'')), s)"
  by (simp add: dispatch_def path_part_def under_static_def url_match_def segments_def lit_def)

lemma dispatch_too_many_digits:
  "dispatch example_env s \<lparr>path = lit ''/api/sites/'' @ replicate 4301 49, args = a\<rparr>
     = (Inl (OtherException (lit ''ValueError'')), s)"
proof -
  have "decimal_value 49 = Some 1"
    by (simp add: decimal_value_def decimal_zeros_def)
  then have "int_converter example_env (replicate 4301 49)"
    by (simp add: int_converter_def example_env_def list_all_iff)
  moreover have "47 \<notin> set (replicate 4301 (49 :: nat))"
    by simp
  ultimately show ?thesis
    by (simp add: dispatch_site_path call_view_def to_python_def example_env_def)
qed

lemma dispatch_static:
  "dispatch e s \<lparr>path = lit ''/static/app.js'', args = a\<rparr> = (static_route e (lit ''/static/app.js''), s)"
  by (simp add: dispatch_def path_part_def under_static_def segments_def lit_def)

lemma dispatch_health:
  "dispatch e s \<lparr>path = lit ''/api/health'', args = a\<rparr> = health_check e s"
  by (simp add: dispatch_def path_part_def under_static_def url_match_def segments_def
      call_view_def lit_def)

lemma dispatch_trailing_slash:
  "dispatch e s \<lparr>path = lit ''/api/sites/'', args = a\<rparr> = (Inr not_found, s)"
  by (simp add: dispatch_def path_part_def under_static_def url_match_def segments_def
      int_converter_def lit_def)

text \<open>The lookup on the loaded catalog at the ids 3 and 999.\<close>

lemma get_site_module_load_3:
  "reply_status (fst (get_site e module_load 3)) = Some 200
   \<and> reply_field (fst (get_site e module_load 3)) (lit ''success'') = Some (JBool True)"
  by (simp add: get_site_def module_load_def jsonify_def reply_status_def reply_field_def)

lemma get_site_module_load_999:
  "reply_status (fst (get_site e module_load 999)) = Some 404
   \<and> reply_field (fst (get_site e module_load 999)) (lit ''error'')
       = Some (JStr (lit ''Site not found''))"
  by (simp add: get_site_def module_load_def jsonify_def with_status_def reply_status_def
      reply_field_def)

text \<open>
  A segment that the converter accepts is a decimal integer in the digits of some script,
  the lookup never answers with the response of the handler of 404, and it reads nothing
  but \<open>SITES\<close>.
\<close>

lemma int_converter_decimal: "int_converter e seg \<Longrightarrow> unicode_decimal_integer e seg"
  by (simp add: int_converter_def unicode_decimal_integer_def unicode_digits_def)

lemma get_site_not_endpoint: "fst (get_site e s i) \<noteq> Inr not_found"
  by (simp add: get_site_def not_found_def jsonify_def with_status_def split: option.splits)

lemma get_site_reads_SITES_only:
  "SITES s = SITES s' \<Longrightarrow> fst (get_site e s i) = fst (get_site e' s' i)"
  by (simp add: get_site_def split: option.splits)

section \<open>The claims\<close>

text \<open>
  Claim C1. When the ids of the catalog are pairwise distinct, the lookup \<open>get_site\<close>
  answers every integer id that some record of the catalog has with status 200 and the
  body \<open>{success: true, data: site}\<close>, where the site is that record and no other record
  has the id; it answers every integer id that no record has with status 404 and the body
  \<open>{success: false, error: "Site not found"}\<close>. The view is stated for every integer; the
  route hands it the ids that its converter accepts.
\<close>

theorem get_site_returns_matching_record:
  assumes "distinct (map id_field (SITES s))"
  shows "(\<forall>x \<in> set (SITES s). id_field x = i \<longrightarrow>
            (\<forall>y \<in> set (SITES s). id_field y = i \<longrightarrow> y = x) \<and>
            get_site e s i =
              (Inr \<lparr>status = 200, body = Json (JDict
                 [(lit ''success'', JBool True), (lit ''data'', site_json x)])\<rparr>, s))
       \<and> (i \<notin> id_field ` set (SITES s) \<longrightarrow>
            get_site e s i =
              (Inr \<lparr>status = 404, body = Json (JDict
                 [(lit ''success'', JBool False),
                  (lit ''error'', JStr (lit ''Site not found''))])\<rparr>, s))"
proof (intro conjI ballI impI)
  fix x y
  assume x: "x \<in> set (SITES s)" "id_field x = i" and y: "y \<in> set (SITES s)" "id_field y = i"
  from assms x y show "y = x"
    by (metis distinct_map inj_onD)
next
  fix x
  assume x: "x \<in> set (SITES s)" "id_field x = i"
  from find_distinct_key [OF assms x(1)] x(2)
  have "find (\<lambda>y. id_field y = i) (SITES s) = Some x" by simp
  then show "get_site e s i =
              (Inr \<lparr>status = 200, body = Json (JDict
                 [(lit ''success'', JBool True), (lit ''data'', site_json x)])\<rparr>, s)"
    by (simp add: get_site_def jsonify_def)
next
  assume "i \<notin> id_field ` set (SITES s)"
  then have "find (\<lambda>y. id_field y = i) (SITES s) = None"
    by (rule find_absent_key)
  then show "get_site e s i =
              (Inr \<lparr>status = 404, body = Json (JDict
                 [(lit ''success'', JBool False),
                  (lit ''error'', JStr (lit ''Site not found''))])\<rparr>, s)"
    by (simp add: get_site_def jsonify_def with_status_def)
qed

text \<open>An instance on the loaded catalog and the example environment.\<close>

theorem get_site_returns_matching_record_witness:
  "distinct (map id_field (SITES module_load)) \<and>
   get_site example_env module_load 2 =
     (Inr \<lparr>status = 200, body = Json (JDict
        [(lit ''success'', JBool True),
         (lit ''data'', JDict
            [(lit ''id'', JInt 2),
             (lit ''url'', JStr (lit ''http://76.102.42.17:5000/video'')),
             (lit ''title'', JStr (lit ''Video Demo'')),
             (lit ''description'', JStr (lit ''Video demonstration and media showcase'')),
             (lit ''category'', JStr (lit ''projects''))])])\<rparr>, module_load) \<and>
   get_site example_env module_load 999 =
     (Inr \<lparr>status = 404, body = Json (JDict
        [(lit ''success'', JBool False),
         (lit ''error'', JStr (lit ''Site not found''))])\<rparr>, module_load)"
proof -
  define x where "x = \<lparr>id_field = 2,
       url = lit ''http://76.102.42.17:5000/video'',
       title = lit ''Video Demo'',
       description = lit ''Video demonstration and media showcase'',
       category = lit ''projects''\<rparr>"
  have d: "distinct (map id_field (SITES module_load))"
    by (simp add: module_load_def)
  have mem: "x \<in> set (SITES module_load)"
    unfolding module_load_def x_def by simp
  have idx: "id_field x = 2"
    by (simp add: x_def)
  have absent: "999 \<notin> id_field ` set (SITES module_load)"
    by (simp add: module_load_def)
  from get_site_returns_matching_record [OF d, of 2 example_env] mem idx
  have hit: "get_site example_env module_load 2 =
     (Inr \<lparr>status = 200, body = Json (JDict
        [(lit ''success'', JBool True), (lit ''data'', site_json x)])\<rparr>, module_load)"
    by blast
  from get_site_returns_matching_record [OF d, of 999 example_env] absent
  have miss: "get_site example_env module_load 999 =
     (Inr \<lparr>status = 404, body = Json (JDict
        [(lit ''success'', JBool False),
         (lit ''error'', JStr (lit ''Site not found''))])\<rparr>, module_load)"
    by blast
  have sx: "site_json x = JDict
            [(lit ''id'', JInt 2),
             (lit ''url'', JStr (lit ''http://76.102.42.17:5000/video'')),
             (lit ''title'', JStr (lit ''Video Demo'')),
             (lit ''description'', JStr (lit ''Video demonstration and media showcase'')),
             (lit ''category'', JStr (lit ''projects''))]"
    by (simp add: site_json_def x_def)
  from d hit miss sx show ?thesis by (simp only:)
qed

text \<open>
  Claim C2. When the upstream answers, the field \<open>content\<close> of the reply is the first
  1000 characters of the decoded body: its length is the smaller of 1000 and the length
  of the body, a longer body is cut after exactly 1000 characters, and a body of at most
  1000 characters is returned whole. The count is in characters of the decoded \<open>str\<close>
  (code points), whatever the number of bytes each one takes on the wire.
\<close>

theorem proxy_content_first_1000_characters:
  assumes "map_of a (lit ''url'') = Some u" and "u \<noteq> []" and "requests_get e u 10 = Inr r"
  shows "\<exists>c. reply_field (fst (proxy_request e s a)) (lit ''content'') = Some (JStr c) \<and>
           c = take 1000 (text_decoded r) \<and>
           length c = min 1000 (length (text_decoded r)) \<and>
           (1000 < length (text_decoded r) \<longrightarrow>
              length c = 1000 \<and> (\<exists>rest. rest \<noteq> [] \<and> text_decoded r = c @ rest)) \<and>
           (length (text_decoded r) \<le> 1000 \<longrightarrow> c = text_decoded r)"
proof -
  let ?t = "text_decoded r"
  have field: "reply_field (fst (proxy_request e s a)) (lit ''content'') = Some (JStr (take 1000 ?t))"
    by (simp add: proxy_request_fetched [OF assms] reply_field_def)
  have long: "1000 < length ?t \<longrightarrow>
      length (take 1000 ?t) = 1000 \<and> (\<exists>rest. rest \<noteq> [] \<and> ?t = take 1000 ?t @ rest)"
  proof
    assume l: "1000 < length ?t"
    then have "drop 1000 ?t \<noteq> []" by simp
    moreover have "?t = take 1000 ?t @ drop 1000 ?t" by simp
    ultimately have "\<exists>rest. rest \<noteq> [] \<and> ?t = take 1000 ?t @ rest" by blast
    with l show "length (take 1000 ?t) = 1000 \<and> (\<exists>rest. rest \<noteq> [] \<and> ?t = take 1000 ?t @ rest)"
      by simp
  qed
  have short: "length ?t \<le> 1000 \<longrightarrow> take 1000 ?t = ?t" by simp
  from field long short show ?thesis by simp
qed

text \<open>An instance on the loaded catalog and the example environment.\<close>

theorem proxy_content_first_1000_characters_witness:
  "reply_field (fst (proxy_request example_env module_load
      [(lit ''url'', lit ''http://example.com/long'')])) (lit ''content'')
     = Some (JStr (replicate 1000 233)) \<and>
   reply_field (fst (proxy_request example_env module_load
      [(lit ''url'', lit ''http://example.com/missing'')])) (lit ''content'')
     = Some (JStr (lit ''gone''))"
proof -
  have long: "requests_get example_env (lit ''http://example.com/long'') 10 =
      Inr \<lparr>status_code = 200, text_decoded = replicate 1001 233, headers = []\<rparr>"
    by (simp add: example_env_def)
  have short: "requests_get example_env (lit ''http://example.com/missing'') 10 =
      Inr \<lparr>status_code = 404, text_decoded = lit ''gone'',
               headers = [(lit ''Content-Type'', lit ''text/plain'')]\<rparr>"
    by (simp add: example_env_def)
  have 1: "map_of [(lit ''url'', lit ''http://example.com/long'')] (lit ''url'')
      = Some (lit ''http://example.com/long'')" by simp
  have 2: "map_of [(lit ''url'', lit ''http://example.com/missing'')] (lit ''url'')
      = Some (lit ''http://example.com/missing'')" by simp
  have n1: "lit ''http://example.com/long'' \<noteq> []" by simp
  have n2: "lit ''http://example.com/missing'' \<noteq> []" by simp
  have four: "length (lit ''gone'') = 4" by (simp add: lit_def)
  show ?thesis
    using proxy_content_first_1000_characters [OF 1 n1 long, of module_load]
      proxy_content_first_1000_characters [OF 2 n2 short, of module_load] four
    by simp
qed

text \<open>
  Claim C3. When the query parameter \<open>url\<close> is absent or empty, the proxy answers 400
  with the body \<open>{success: false, error: "URL parameter is required"}\<close>, issues no
  outbound request (the list of requests sent is unchanged), and its result does not
  depend on the environment, so the network is not consulted.
\<close>

theorem proxy_without_url_is_rejected:
  assumes "map_of a (lit ''url'') = None \<or> map_of a (lit ''url'') = Some []"
  shows "fst (proxy_request e s a) =
           Inr \<lparr>status = 400, body = Json (JDict
             [(lit ''success'', JBool False),
              (lit ''error'', JStr (lit ''URL parameter is required''))])\<rparr>
       \<and> sent (snd (proxy_request e s a)) = sent s
       \<and> proxy_request e s a = proxy_request e' s a"
  using proxy_request_rejected [OF assms, of e s] proxy_request_rejected [OF assms, of e' s]
  by simp

text \<open>An instance on the loaded catalog and the example environment.\<close>

theorem proxy_without_url_is_rejected_witness:
  "fst (proxy_request example_env module_load []) =
     Inr \<lparr>status = 400, body = Json (JDict
       [(lit ''success'', JBool False),
        (lit ''error'', JStr (lit ''URL parameter is required''))])\<rparr> \<and>
   sent (snd (proxy_request example_env module_load [])) = [] \<and>
   fst (proxy_request example_env module_load [(lit ''url'', [])]) =
     Inr \<lparr>status = 400, body = Json (JDict
       [(lit ''success'', JBool False),
        (lit ''error'', JStr (lit ''URL parameter is required''))])\<rparr> \<and>
   sent (snd (proxy_request example_env module_load [(lit ''url'', [])])) = []"
proof -
  have 1: "map_of ([] :: (str \<times> str) list) (lit ''url'') = None \<or>
           map_of ([] :: (str \<times> str) list) (lit ''url'') = Some []" by simp
  have 2: "map_of [(lit ''url'', [])] (lit ''url'') = None \<or>
           map_of [(lit ''url'', [])] (lit ''url'') = Some []" by simp
  have s0: "sent module_load = []" by (simp add: module_load_def)
  show ?thesis
    using proxy_without_url_is_rejected [OF 1, of example_env module_load example_env]
      proxy_without_url_is_rejected [OF 2, of example_env module_load example_env] s0
    by simp
qed

text \<open>
  Claim C4. When the outbound GET returns a response, whatever its status (4xx and 5xx
  included), the proxy answers 200 with \<open>success: true\<close> and with the upstream status in
  \<open>status_code\<close>.
\<close>

theorem proxy_reports_upstream_status:
  assumes "map_of a (lit ''url'') = Some u" and "u \<noteq> []" and "requests_get e u 10 = Inr r"
  shows "reply_status (fst (proxy_request e s a)) = Some 200
       \<and> reply_field (fst (proxy_request e s a)) (lit ''success'') = Some (JBool True)
       \<and> reply_field (fst (proxy_request e s a)) (lit ''status_code'') = Some (JInt (status_code r))"
  by (simp add: proxy_request_fetched [OF assms] reply_status_def reply_field_def)

text \<open>An instance on the loaded catalog and the example environment.\<close>

theorem proxy_reports_upstream_status_witness:
  "reply_status (fst (proxy_request example_env module_load
      [(lit ''url'', lit ''http://example.com/missing'')])) = Some 200 \<and>
   reply_field (fst (proxy_request example_env module_load
      [(lit ''url'', lit ''http://example.com/missing'')])) (lit ''success'') = Some (JBool True) \<and>
   reply_field (fst (proxy_request example_env module_load
      [(lit ''url'', lit ''http://example.com/missing'')])) (lit ''status_code'') = Some (JInt 404) \<and>
   reply_status (fst (proxy_request example_env module_load
      [(lit ''url'', lit ''http://example.com/broken'')])) = Some 200 \<and>
   reply_field (fst (proxy_request example_env module_load
      [(lit ''url'', lit ''http://example.com/broken'')])) (lit ''status_code'') = Some (JInt 503)"
proof -
  have missing: "requests_get example_env (lit ''http://example.com/missing'') 10 =
      Inr \<lparr>status_code = 404, text_decoded = lit ''gone'',
               headers = [(lit ''Content-Type'', lit ''text/plain'')]\<rparr>"
    by (simp add: example_env_def)
  have broken: "requests_get example_env (lit ''http://example.com/broken'') 10 =
      Inr \<lparr>status_code = 503, text_decoded = [], headers = []\<rparr>"
    by (simp add: example_env_def)
  have 1: "map_of [(lit ''url'', lit ''http://example.com/missing'')] (lit ''url'')
      = Some (lit ''http://example.com/missing'')" by simp
  have 2: "map_of [(lit ''url'', lit ''http://example.com/broken'')] (lit ''url'')
      = Some (lit ''http://example.com/broken'')" by simp
  have n1: "lit ''http://example.com/missing'' \<noteq> []" by simp
  have n2: "lit ''http://example.com/broken'' \<noteq> []" by simp
  show ?thesis
    using proxy_reports_upstream_status [OF 1 n1 missing, of module_load]
      proxy_reports_upstream_status [OF 2 n2 broken, of module_load]
    by simp
qed




text \<open>
  Claim C6. For every catalog, \<open>get_sites\<close> returns a response (never an exception) with
  status 200 and a body with exactly the keys \<open>success\<close>, \<open>data\<close> and \<open>timestamp\<close>:
  \<open>success\<close> is true, \<open>data\<close> is the list of all sites in the order of the catalog (the
  empty list for the empty catalog), and \<open>timestamp\<close> is the time the environment gives.
\<close>

theorem get_sites_lists_whole_catalog:
  "reply_status (fst (get_sites e s)) = Some 200
   \<and> reply_keys (fst (get_sites e s)) = Some [lit ''success'', lit ''data'', lit ''timestamp'']
   \<and> reply_field (fst (get_sites e s)) (lit ''success'') = Some (JBool True)
   \<and> reply_field (fst (get_sites e s)) (lit ''data'') = Some (JList (map site_json (SITES s)))
   \<and> reply_field (fst (get_sites e s)) (lit ''timestamp'') = Some (JStr (now_isoformat e))
   \<and> reply_field (fst (get_sites e (s\<lparr>SITES := []\<rparr>))) (lit ''data'') = Some (JList [])"
  by (simp add: get_sites_def jsonify_def reply_status_def reply_keys_def reply_field_def)

text \<open>
  Claim C7. The ids of the catalog are pairwise distinct when the module is loaded; each
  of the five views, and the routing of any request, leaves \<open>SITES\<close> as it found it; so
  after any sequence of requests the catalog is the one that was loaded and its ids are
  still pairwise distinct.
\<close>

theorem catalog_is_never_mutated:
  "distinct (map id_field (SITES module_load))
   \<and> SITES (snd (home e s)) = SITES s
   \<and> SITES (snd (get_sites e s)) = SITES s
   \<and> SITES (snd (get_site e s i)) = SITES s
   \<and> SITES (snd (proxy_request e s a)) = SITES s
   \<and> SITES (snd (health_check e s)) = SITES s
   \<and> SITES (snd (dispatch e s rq)) = SITES s
   \<and> SITES (run module_load evs) = SITES module_load
   \<and> distinct (map id_field (SITES (run module_load evs)))"
  by (simp add: home_SITES get_sites_SITES get_site_SITES proxy_request_SITES
      health_check_SITES dispatch_SITES run_SITES ids_module_load)

text \<open>
  Claim C8. In every environment and state, \<open>health_check\<close> returns status 200 and a body
  with exactly the keys \<open>status\<close>, \<open>timestamp\<close> and \<open>service\<close>: \<open>status\<close> is \<open>"healthy"\<close>,
  \<open>timestamp\<close> is the time the environment gives, and \<open>service\<close> is
  \<open>"Portfolio Dashboard API"\<close>.
\<close>

theorem health_check_always_healthy:
  "reply_status (fst (health_check e s)) = Some 200
   \<and> reply_keys (fst (health_check e s)) = Some [lit ''status'', lit ''timestamp'', lit ''service'']
   \<and> reply_field (fst (health_check e s)) (lit ''status'') = Some (JStr (lit ''healthy''))
   \<and> reply_field (fst (health_check e s)) (lit ''timestamp'') = Some (JStr (now_isoformat e))
   \<and> reply_field (fst (health_check e s)) (lit ''service'')
        = Some (JStr (lit ''Portfolio Dashboard API''))"
  by (simp add: health_check_def jsonify_def reply_status_def reply_keys_def reply_field_def)

text \<open>
  Claim C9, amended. For a path \<open>/api/sites/seg\<close> whose last segment is not a decimal
  integer in the decimal digits of any script (those of the Unicode database, not only
  \<open>0\<close> to \<open>9\<close>), routing answers with the handler of 404: status 404 and the body
  \<open>{success: false, error: "Endpoint not found"}\<close>, with the state untouched. The error is
  not \<open>"Site not found"\<close>, and the lookup view did not produce the reply, since it never
  returns this response.
\<close>

theorem non_integer_id_is_endpoint_not_found:
  assumes "47 \<notin> set seg" and "\<not> unicode_decimal_integer e seg"
  shows "dispatch e s \<lparr>path = lit ''/api/sites/'' @ seg, args = a\<rparr> = (Inr not_found, s)
       \<and> not_found = \<lparr>status = 404, body = Json (JDict
           [(lit ''success'', JBool False),
            (lit ''error'', JStr (lit ''Endpoint not found''))])\<rparr>
       \<and> reply_field (Inr not_found) (lit ''error'') \<noteq> Some (JStr (lit ''Site not found''))
       \<and> fst (get_site e s i) \<noteq> Inr not_found"
proof -
  from assms(2) have "\<not> int_converter e seg"
    using int_converter_decimal by blast
  with assms(1) have "dispatch e s \<lparr>path = lit ''/api/sites/'' @ seg, args = a\<rparr> = (Inr not_found, s)"
    by (simp add: dispatch_site_path)
  then show ?thesis
    by (simp add: get_site_not_endpoint)
      (simp add: not_found_def jsonify_def with_status_def reply_field_def)
qed

text \<open>An instance on the loaded catalog and the example environment: \<open>abc\<close> and \<open>1.5\<close>.\<close>

theorem non_integer_id_is_endpoint_not_found_witness:
  "dispatch example_env module_load \<lparr>path = lit ''/api/sites/'' @ lit ''abc'', args = []\<rparr>
     = (Inr \<lparr>status = 404, body = Json (JDict
           [(lit ''success'', JBool False),
            (lit ''error'', JStr (lit ''Endpoint not found''))])\<rparr>, module_load) \<and>
   dispatch example_env module_load \<lparr>path = lit ''/api/sites/'' @ lit ''1.5'', args = []\<rparr>
     = (Inr \<lparr>status = 404, body = Json (JDict
           [(lit ''success'', JBool False),
            (lit ''error'', JStr (lit ''Endpoint not found''))])\<rparr>, module_load)"
proof -
  have abc: "lit ''abc'' = [97, 98, 99]" by (simp add: lit_def)
  have onefive: "lit ''1.5'' = [49, 46, 53]" by (simp add: lit_def)
  have ud: "unicode_decimal example_env = decimal_value" by (simp add: example_env_def)
  have s1: "47 \<notin> set (lit ''abc'')" by (simp add: abc)
  have s2: "47 \<notin> set (lit ''1.5'')" by (simp add: onefive)
  have 1: "\<not> unicode_decimal_integer example_env (lit ''abc'')"
    by (simp add: abc unicode_decimal_integer_def unicode_digits_def ud decimal_value_letters)
  have 2: "\<not> unicode_decimal_integer example_env (lit ''1.5'')"
    by (simp add: onefive unicode_decimal_integer_def unicode_digits_def ud decimal_value_letters)
  show ?thesis
    using non_integer_id_is_endpoint_not_found [OF s1 1, of module_load "[]" 0]
      non_integer_id_is_endpoint_not_found [OF s2 2, of module_load "[]" 0]
    by simp
qed

text \<open>
  With a decimal integer read as one in the digits \<open>0\<close> to \<open>9\<close> only, the property
  fails: the segment of the one Arabic-Indic digit three is no such integer, yet the
  converter accepts it and the lookup answers 200 with the site 3; three Arabic-Indic
  nines get 404 with \<open>"Site not found"\<close>.
\<close>

theorem non_ascii_digits_reach_lookup_counterexample:
  "\<not> decimal_integer [1635]
   \<and> reply_status (fst (dispatch example_env module_load
         \<lparr>path = lit ''/api/sites/'' @ [1635], args = []\<rparr>)) = Some 200
   \<and> reply_field (fst (dispatch example_env module_load
         \<lparr>path = lit ''/api/sites/'' @ [1635], args = []\<rparr>)) (lit ''success'') = Some (JBool True)
   \<and> \<not> decimal_integer [1641, 1641, 1641]
   \<and> reply_status (fst (dispatch example_env module_load
         \<lparr>path = lit ''/api/sites/'' @ [1641, 1641, 1641], args = []\<rparr>)) = Some 404
   \<and> reply_field (fst (dispatch example_env module_load
         \<lparr>path = lit ''/api/sites/'' @ [1641, 1641, 1641], args = []\<rparr>)) (lit ''error'')
       = Some (JStr (lit ''Site not found''))"
proof -
  have "\<not> decimal_integer [1635]" and "\<not> decimal_integer [1641, 1641, 1641]"
    by (simp_all add: decimal_integer_def ascii_digits_def)
  then show ?thesis
    by (simp add: dispatch_arabic_3 dispatch_arabic_999 get_site_module_load_3
        get_site_module_load_999)
qed

text \<open>
  Claim C10. Two calls of \<open>get_site\<close> with the same id return the same response,
  whatever the two environments (clock, network) and whatever requests were served
  before each call; the body has no \<open>timestamp\<close> key: its keys are \<open>success\<close> and \<open>data\<close>,
  or \<open>success\<close> and \<open>error\<close>. The listing differs: two of its replies are equal exactly when
  the two clock readings are.
\<close>

theorem get_site_is_deterministic:
  "fst (get_site e (run module_load evs) i) = fst (get_site e' (run module_load evs') i)
   \<and> reply_field (fst (get_site e (run module_load evs) i)) (lit ''timestamp'') = None
   \<and> (reply_keys (fst (get_site e (run module_load evs) i)) = Some [lit ''success'', lit ''data'']
      \<or> reply_keys (fst (get_site e (run module_load evs) i)) = Some [lit ''success'', lit ''error''])
   \<and> (fst (get_sites e s) = fst (get_sites e' s) \<longleftrightarrow> now_isoformat e = now_isoformat e')"
proof -
  have "SITES (run module_load evs) = SITES (run module_load evs')"
    by (simp add: run_SITES)
  then have same: "fst (get_site e (run module_load evs) i) = fst (get_site e' (run module_load evs') i)"
    by (rule get_site_reads_SITES_only)
  have none: "reply_field (fst (get_site e t i)) (lit ''timestamp'') = None" for t
    by (simp add: get_site_def jsonify_def with_status_def reply_field_def split: option.splits)
  have keys: "reply_keys (fst (get_site e t i)) = Some [lit ''success'', lit ''data'']
      \<or> reply_keys (fst (get_site e t i)) = Some [lit ''success'', lit ''error'']" for t
    by (simp add: get_site_def jsonify_def with_status_def reply_keys_def split: option.splits)
  have listing: "fst (get_sites e s) = fst (get_sites e' s) \<longleftrightarrow> now_isoformat e = now_isoformat e'"
    by (simp add: get_sites_def jsonify_def)
  from same none keys listing show ?thesis by blast
qed

end
